theory Spec2Isabelle
  imports Main
begin

section \<open>Data model (shared/types.ts, shared/protocol.ts)\<close>

text \<open>
  A JavaScript \<^verbatim>\<open>Record<string, V>\<close> is a partial map from strings to values; its keys
  are request ids and Discord message ids, and the properties that a JavaScript object
  inherits from its prototype are not represented.  Numbers that the daemon handles
  (process ids, millisecond timeouts, epoch timestamps) are integers.  An optional field
  is an \<open>option\<close>; \<open>None\<close> stands for \<^verbatim>\<open>undefined\<close>.
\<close>

type_synonym 'v Record = "string \<rightharpoonup> 'v"

record timeouts_cfg =
  defaultAsk :: int
  maxAsk :: int

record discord_cfg =
  token :: string
  userId :: string

record Config =
  socketPath :: string
  dataDir :: string
  discord :: discord_cfg
  timeouts :: timeouts_cfg

record SessionInfo =
  pid :: int
  sessionId :: "string option"
  sessionName :: "string option"
  cwd :: string
  projectName :: "string option"

datatype request_type = Send | Ask

record PendingRequest =
  request_id :: string
  request_type :: request_type
  message :: string
  options :: "string list option"
  sessionInfo :: SessionInfo
  discordMessageId :: "string option"
  createdAt :: int
  timeout :: int
  noWait :: bool

datatype PendingStatus = S_pending | S_answered | S_timeout | S_error

record PendingResponse =
  requestId :: string
  status :: PendingStatus
  response :: "string option"
  answeredAt :: "int option"
  error :: "string option"

record PendingStore =
  requests :: "PendingRequest Record"
  responses :: "PendingResponse Record"

record TerminalInfo =
  term_pid :: int
  term_kittyWindowId :: "int option"
  term_sessionId :: "string option"
  term_cwd :: string
  active :: bool

record SessionStore =
  messageToRequest :: "string Record"
  requestToTerminal :: "TerminalInfo Record"

datatype ServerMessage =
    Ack string string
  | Response string string int
  | Error "string option" string string
  | Timeout string

text \<open>The two events a \<^verbatim>\<open>PendingManager\<close> emits, with their payloads.\<close>

datatype event =
    Ev_response string string int
  | Ev_timeout string

section \<open>The file system and the timer queue, as the daemon sees them\<close>

text \<open>
  A backing file is absent, present but unreadable (\<^verbatim>\<open>readFileSync\<close> throws), or present
  with a text.  The text either is no JSON (\<^verbatim>\<open>JSON.parse\<close> throws) or denotes a document
  of the type that the caller casts it to; JSON of another shape is not represented.
  The calls of the source that can throw return a sum, \<open>Inl\<close> the exception.
\<close>

datatype 'a contents = Garbage | Doc 'a

datatype 'a backing = Missing | Unreadable | File "'a contents"

datatype exn = ENOENT | EACCES | SyntaxError

definition existsSync :: "'a backing \<Rightarrow> bool" where
  "existsSync f = (case f of Missing \<Rightarrow> False | Unreadable \<Rightarrow> True | File t \<Rightarrow> True)"

definition readFileSync :: "'a backing \<Rightarrow> exn + 'a contents" where
  "readFileSync f = (case f of Missing \<Rightarrow> Inl ENOENT | Unreadable \<Rightarrow> Inl EACCES | File t \<Rightarrow> Inr t)"

definition JSON_parse :: "'a contents \<Rightarrow> exn + 'a" where
  "JSON_parse t = (case t of Garbage \<Rightarrow> Inl SyntaxError | Doc d \<Rightarrow> Inr d)"

text \<open>
  The daemon: the fields of \<^verbatim>\<open>PendingManager\<close> (\<open>pendingStore\<close>, \<open>sessionStore\<close>,
  \<open>timers\<close>), the fields of \<^verbatim>\<open>Server\<close> (\<open>clients\<close>, a JavaScript \<^verbatim>\<open>Map\<close>, which iterates in
  insertion order, hence a list of pairs of a socket and its optional request id), and the
  part of the world they act on: the two backing files under \<open>dataDir\<close>, the timers that
  Node has scheduled and not yet fired or cleared (handle, request id, delay), the lines
  written to the sockets, and the events emitted so far.  A timer handle is a number that
  \<^verbatim>\<open>setTimeout\<close> never hands out twice.
\<close>

type_synonym socket = nat

record daemon =
  pendingStore :: PendingStore
  sessionStore :: SessionStore
  timers :: "nat Record"
  clients :: "(socket \<times> string option) list"
  pendingFile :: "PendingStore backing"
  sessionsFile :: "SessionStore backing"
  scheduled :: "(nat \<times> string \<times> int) list"
  nextTimer :: nat
  wire :: "(socket \<times> ServerMessage) list"
  emitted :: "event list"

section \<open>Persistent store and request coordinator (class PendingManager)\<close>

definition empty_PendingStore :: PendingStore where
  "empty_PendingStore = \<lparr>requests = Map.empty, responses = Map.empty\<rparr>"

definition empty_SessionStore :: SessionStore where
  "empty_SessionStore = \<lparr>messageToRequest = Map.empty, requestToTerminal = Map.empty\<rparr>"

definition loadPendingStore :: "PendingStore backing \<Rightarrow> PendingStore" where
  "loadPendingStore f =
     (if existsSync f then
        (case readFileSync f of
           Inl e \<Rightarrow> empty_PendingStore
         | Inr t \<Rightarrow> (case JSON_parse t of Inl e \<Rightarrow> empty_PendingStore | Inr d \<Rightarrow> d))
      else empty_PendingStore)"

definition loadSessionStore :: "SessionStore backing \<Rightarrow> SessionStore" where
  "loadSessionStore f =
     (if existsSync f then
        (case readFileSync f of
           Inl e \<Rightarrow> empty_SessionStore
         | Inr t \<Rightarrow> (case JSON_parse t of Inl e \<Rightarrow> empty_SessionStore | Inr d \<Rightarrow> d))
      else empty_SessionStore)"

text \<open>
  The constructors of \<^verbatim>\<open>PendingManager\<close> and \<^verbatim>\<open>Server\<close>: both stores are loaded, the timer
  table and the client table start empty.  A fresh process has no scheduled timer.
\<close>

definition new_Server :: "Config \<Rightarrow> PendingStore backing \<Rightarrow> SessionStore backing \<Rightarrow> daemon" where
  "new_Server config pf sf =
     \<lparr>pendingStore = loadPendingStore pf,
      sessionStore = loadSessionStore sf,
      timers = Map.empty,
      clients = [],
      pendingFile = pf,
      sessionsFile = sf,
      scheduled = [],
      nextTimer = 0,
      wire = [],
      emitted = []\<rparr>"

text \<open>
  Writes to the backing files are taken to succeed; the file then holds the text of the
  document written.
\<close>

definition savePendingStore :: "daemon \<Rightarrow> daemon" where
  "savePendingStore s = s\<lparr>pendingFile := File (Doc (pendingStore s))\<rparr>"

definition saveSessionStore :: "daemon \<Rightarrow> daemon" where
  "saveSessionStore s = s\<lparr>sessionsFile := File (Doc (sessionStore s))\<rparr>"

text \<open>
  The optional third argument of \<^verbatim>\<open>createRequest\<close>.  \<^verbatim>\<open>a || b\<close> yields \<open>b\<close> when \<open>a\<close> is
  \<^verbatim>\<open>undefined\<close> or \<open>0\<close> (or \<^verbatim>\<open>null\<close>, \<^verbatim>\<open>NaN\<close>, which \<open>None\<close> covers as well).
\<close>

record create_options =
  opt_options :: "string list option"
  opt_timeout :: "int option"
  opt_noWait :: "bool option"

definition or_number :: "int option \<Rightarrow> int \<Rightarrow> int" where
  "or_number a b = (case a of None \<Rightarrow> b | Some n \<Rightarrow> if n = 0 then b else n)"

definition or_bool :: "bool option \<Rightarrow> bool \<Rightarrow> bool" where
  "or_bool a b = (case a of None \<Rightarrow> b | Some x \<Rightarrow> if x then x else b)"

text \<open>
  \<^verbatim>\<open>createRequest\<close>; \<open>uuid\<close> is the value of \<^verbatim>\<open>randomUUID()\<close> and \<open>now\<close> that of
  \<^verbatim>\<open>Date.now()\<close>.  It returns the request together with the new state.
\<close>

definition createRequest ::
  "Config \<Rightarrow> string \<Rightarrow> int \<Rightarrow> request_type \<Rightarrow> string \<Rightarrow> SessionInfo \<Rightarrow> create_options option
     \<Rightarrow> daemon \<Rightarrow> PendingRequest \<times> daemon" where
  "createRequest config uuid now ty msg info opts s =
     (let request =
            \<lparr>request_id = uuid,
             request_type = ty,
             message = msg,
             options = (case opts of None \<Rightarrow> None | Some os \<Rightarrow> opt_options os),
             sessionInfo = info,
             discordMessageId = None,
             createdAt = now,
             timeout = or_number (case opts of None \<Rightarrow> None | Some os \<Rightarrow> opt_timeout os)
                         (defaultAsk (timeouts config)),
             noWait = or_bool (case opts of None \<Rightarrow> None | Some os \<Rightarrow> opt_noWait os) False\<rparr>;
          s1 = s\<lparr>pendingStore := (pendingStore s)\<lparr>requests := (requests (pendingStore s))(uuid \<mapsto> request)\<rparr>\<rparr>;
          s2 = savePendingStore s1;
          s3 = s2\<lparr>sessionStore := (sessionStore s2)\<lparr>requestToTerminal :=
                  (requestToTerminal (sessionStore s2))(uuid \<mapsto>
                     \<lparr>term_pid = pid info,
                      term_kittyWindowId = None,
                      term_sessionId = sessionId info,
                      term_cwd = cwd info,
                      active = True\<rparr>)\<rparr>\<rparr>;
          s4 = saveSessionStore s3
      in (request, s4))"

text \<open>
  The delay that \<^verbatim>\<open>setTimeout\<close> arms: Node replaces a delay below 1 or above \<open>2^31 - 1\<close>
  by 1.
\<close>

definition setTimeout_delay :: "int \<Rightarrow> int" where
  "setTimeout_delay ms = (if 1 \<le> ms \<and> ms \<le> 2147483647 then ms else 1)"

text \<open>
  \<^verbatim>\<open>startTimeout\<close> schedules a new timer and stores its handle under the request id; whatever
  handle was stored there before is overwritten, and the timer it names stays scheduled.
\<close>

definition startTimeout :: "string \<Rightarrow> int \<Rightarrow> daemon \<Rightarrow> daemon" where
  "startTimeout rid ms s =
     (let timer = nextTimer s
      in s\<lparr>scheduled := scheduled s @ [(timer, rid, setTimeout_delay ms)],
            nextTimer := Suc timer,
            timers := (timers s)(rid \<mapsto> timer)\<rparr>)"

definition clearTimeout :: "string \<Rightarrow> daemon \<Rightarrow> daemon" where
  "clearTimeout rid s =
     (case timers s rid of
        None \<Rightarrow> s
      | Some timer \<Rightarrow>
          s\<lparr>scheduled := filter (\<lambda>(h, r, ms). h \<noteq> timer) (scheduled s),
            timers := (timers s)(rid := None)\<rparr>)"

definition setDiscordMessageId :: "string \<Rightarrow> string \<Rightarrow> daemon \<Rightarrow> daemon" where
  "setDiscordMessageId rid mid s =
     (case requests (pendingStore s) rid of
        None \<Rightarrow> s
      | Some request \<Rightarrow>
          (let request' = request\<lparr>discordMessageId := Some mid\<rparr>;
               s1 = s\<lparr>pendingStore := (pendingStore s)\<lparr>requests := (requests (pendingStore s))(rid \<mapsto> request')\<rparr>\<rparr>;
               s2 = savePendingStore s1;
               s3 = s2\<lparr>sessionStore := (sessionStore s2)\<lparr>messageToRequest :=
                       (messageToRequest (sessionStore s2))(mid \<mapsto> rid)\<rparr>\<rparr>;
               s4 = saveSessionStore s3
           in if request_type request' = Ask \<and> \<not> noWait request'
              then startTimeout rid (timeout request') s4
              else s4))"

definition getRequest :: "daemon \<Rightarrow> string \<Rightarrow> PendingRequest option" where
  "getRequest s rid = requests (pendingStore s) rid"

text \<open>The empty string is falsy, so an index entry whose value is empty resolves to nothing.\<close>

definition getRequestByMessageId :: "daemon \<Rightarrow> string \<Rightarrow> PendingRequest option" where
  "getRequestByMessageId s mid =
     (case messageToRequest (sessionStore s) mid of
        None \<Rightarrow> None
      | Some rid \<Rightarrow> if rid \<noteq> [] then requests (pendingStore s) rid else None)"

definition getTerminal :: "daemon \<Rightarrow> string \<Rightarrow> TerminalInfo option" where
  "getTerminal s rid = requestToTerminal (sessionStore s) rid"

text \<open>
  \<^verbatim>\<open>Server.send\<close> writes one line to a socket.  \<^verbatim>\<open>Server.notifyClient\<close> walks the client table
  in insertion order and writes to the first client whose request id is the given one.
\<close>

definition send :: "socket \<Rightarrow> ServerMessage \<Rightarrow> daemon \<Rightarrow> daemon" where
  "send sock msg s = s\<lparr>wire := wire s @ [(sock, msg)]\<rparr>"

definition notifyClient :: "string \<Rightarrow> ServerMessage \<Rightarrow> daemon \<Rightarrow> daemon" where
  "notifyClient rid msg s =
     (case find (\<lambda>(sock, r). r = Some rid) (clients s) of
        None \<Rightarrow> s
      | Some (sock, r) \<Rightarrow> send sock msg s)"

text \<open>
  \<^verbatim>\<open>emit\<close> runs the listeners synchronously.  The only listeners are the two that the
  constructor of \<^verbatim>\<open>Server\<close> registers, which forward the event with \<^verbatim>\<open>notifyClient\<close>.
\<close>

definition emit :: "event \<Rightarrow> daemon \<Rightarrow> daemon" where
  "emit ev s =
     (let s1 = s\<lparr>emitted := emitted s @ [ev]\<rparr>
      in case ev of
           Ev_response rid text at \<Rightarrow> notifyClient rid (Response rid text at) s1
         | Ev_timeout rid \<Rightarrow> notifyClient rid (Timeout rid) s1)"

text \<open>
  \<^verbatim>\<open>setResponse\<close> reads \<^verbatim>\<open>Date.now()\<close> twice: \<open>now1\<close> is stored, \<open>now2\<close> is emitted.
\<close>

definition setResponse :: "string \<Rightarrow> string \<Rightarrow> int \<Rightarrow> int \<Rightarrow> daemon \<Rightarrow> daemon" where
  "setResponse rid text now1 now2 s =
     (let s1 = clearTimeout rid s;
          s2 = s1\<lparr>pendingStore := (pendingStore s1)\<lparr>responses := (responses (pendingStore s1))(rid \<mapsto>
                  \<lparr>requestId = rid,
                   status = S_answered,
                   response = Some text,
                   answeredAt = Some now1,
                   error = None\<rparr>)\<rparr>\<rparr>;
          s3 = savePendingStore s2
      in emit (Ev_response rid text now2) s3)"

definition handleTimeout :: "string \<Rightarrow> daemon \<Rightarrow> daemon" where
  "handleTimeout rid s =
     (let s1 = s\<lparr>timers := (timers s)(rid := None)\<rparr>;
          s2 = s1\<lparr>pendingStore := (pendingStore s1)\<lparr>responses := (responses (pendingStore s1))(rid \<mapsto>
                  \<lparr>requestId = rid,
                   status = S_timeout,
                   response = None,
                   answeredAt = None,
                   error = None\<rparr>)\<rparr>\<rparr>;
          s3 = savePendingStore s2
      in emit (Ev_timeout rid) s3)"

text \<open>
  Node fires a scheduled timer once: the timer leaves the queue and its callback, which
  \<^verbatim>\<open>startTimeout\<close> set to \<^verbatim>\<open>handleTimeout(requestId)\<close>, runs.  A handle that is not scheduled
  (never set, already fired, or cleared) does not fire.
\<close>

definition timer_fires :: "nat \<Rightarrow> daemon \<Rightarrow> daemon" where
  "timer_fires timer s =
     (case find (\<lambda>(h, r, ms). h = timer) (scheduled s) of
        None \<Rightarrow> s
      | Some (h, rid, ms) \<Rightarrow>
          handleTimeout rid (s\<lparr>scheduled := filter (\<lambda>(h, r, ms). h \<noteq> timer) (scheduled s)\<rparr>))"

definition updateTerminalActive :: "string \<Rightarrow> bool \<Rightarrow> daemon \<Rightarrow> daemon" where
  "updateTerminalActive rid act s =
     (case requestToTerminal (sessionStore s) rid of
        None \<Rightarrow> s
      | Some terminal \<Rightarrow>
          saveSessionStore (s\<lparr>sessionStore := (sessionStore s)\<lparr>requestToTerminal :=
             (requestToTerminal (sessionStore s))(rid \<mapsto> terminal\<lparr>active := act\<rparr>)\<rparr>\<rparr>))"

text \<open>
  \<^verbatim>\<open>cleanup\<close>.  The index entry is deleted only when the request exists and its
  \<open>discordMessageId\<close> is truthy, that is, present and not the empty string.
\<close>

definition cleanup :: "string \<Rightarrow> daemon \<Rightarrow> daemon" where
  "cleanup rid s =
     (let s1 = clearTimeout rid s;
          s2 = (case requests (pendingStore s1) rid of
                  None \<Rightarrow> s1
                | Some request \<Rightarrow>
                    (case discordMessageId request of
                       None \<Rightarrow> s1
                     | Some mid \<Rightarrow>
                         if mid \<noteq> [] then
                           s1\<lparr>sessionStore := (sessionStore s1)\<lparr>messageToRequest :=
                               (messageToRequest (sessionStore s1))(mid := None)\<rparr>\<rparr>
                         else s1));
          s3 = s2\<lparr>pendingStore := (pendingStore s2)\<lparr>requests := (requests (pendingStore s2))(rid := None)\<rparr>\<rparr>;
          s4 = s3\<lparr>pendingStore := (pendingStore s3)\<lparr>responses := (responses (pendingStore s3))(rid := None)\<rparr>\<rparr>;
          s5 = s4\<lparr>sessionStore := (sessionStore s4)\<lparr>requestToTerminal :=
                  (requestToTerminal (sessionStore s4))(rid := None)\<rparr>\<rparr>
      in saveSessionStore (savePendingStore s5))"

section \<open>Reply router (class DiscordHandler)\<close>

text \<open>
  What the router reads of the world: whether a process is alive (\<^verbatim>\<open>process.kill(pid, 0)\<close>
  does not throw), and the two readings of the clock in \<^verbatim>\<open>setResponse\<close>.
\<close>

record env =
  isProcessAlive :: "int \<Rightarrow> bool"
  now1 :: int
  now2 :: int

text \<open>
  \<^verbatim>\<open>processResponse\<close> suspends at \<^verbatim>\<open>await this.resumeAndInject(...)\<close> when the process bound
  to the request is dead and the binding has a session id (a non-empty string), after it
  has marked the binding inactive.  A handler of the router therefore ends in one of two
  ways: it has run to its end, or it waits in \<^verbatim>\<open>resumeAndInject\<close> with the answer it is going
  to record.
\<close>

datatype outcome =
    is_Done: Done (state_of: daemon)
  | Awaiting (state_of: daemon) (awaiting_id: string) (awaiting_text: string)



definition processResponse :: "env \<Rightarrow> string \<Rightarrow> string \<Rightarrow> daemon \<Rightarrow> outcome" where
  "processResponse e rid text s =
     (case getTerminal s rid of
        None \<Rightarrow> Done (setResponse rid text (now1 e) (now2 e) s)
      | Some terminal \<Rightarrow>
          if \<not> isProcessAlive e (term_pid terminal) then
            (let s1 = updateTerminalActive rid False s
             in case term_sessionId terminal of
                  None \<Rightarrow> Done (setResponse rid text (now1 e) (now2 e) s1)
                | Some sid \<Rightarrow>
                    if sid \<noteq> [] then Awaiting s1 rid text
                    else Done (setResponse rid text (now1 e) (now2 e) s1))
          else Done (setResponse rid text (now1 e) (now2 e) s))"

text \<open>
  The fields of a Discord message that \<^verbatim>\<open>handleMessage\<close> reads.
  \<open>reference_messageId\<close> is \<^verbatim>\<open>message.reference?.messageId\<close>.
\<close>

record Message =
  author_bot :: bool
  channel_isDMBased :: bool
  author_id :: string
  reference_messageId :: "string option"
  content :: string

definition handleMessage :: "Config \<Rightarrow> env \<Rightarrow> Message \<Rightarrow> daemon \<Rightarrow> outcome" where
  "handleMessage config e msg s =
     (if author_bot msg then Done s
      else if \<not> channel_isDMBased msg then Done s
      else if author_id msg \<noteq> userId (discord config) then Done s
      else (case reference_messageId msg of
              None \<Rightarrow> Done s
            | Some originalMessageId \<Rightarrow>
                if originalMessageId = [] then Done s
                else (case getRequestByMessageId s originalMessageId of
                        None \<Rightarrow> Done s
                      | Some request \<Rightarrow> processResponse e (request_id request) (content msg) s)))"

text \<open>
  \<^verbatim>\<open>String.prototype.split\<close> with a one-character separator: the pieces between the
  separators, in order; a string without the separator is the only piece.
\<close>

fun split :: "char \<Rightarrow> string \<Rightarrow> string list" where
  "split sep [] = [[]]"
| "split sep (c # cs) =
     (if c = sep then [] # split sep cs
      else (case split sep cs of
              [] \<Rightarrow> [[c]]
            | piece # pieces \<Rightarrow> (c # piece) # pieces))"

text \<open>
  \<^verbatim>\<open>parseInt(string, 10)\<close>: leading white space is skipped, then an optional sign, then the
  longest run of decimal digits is read; with no digit the result is \<^verbatim>\<open>NaN\<close>, here \<open>None\<close>.
  Characters are the code units below 256, of which seven are white space.  The result is
  the exact integer; a double holds it exactly below \<open>2^53\<close> and is at least \<open>2^53\<close>
  otherwise, which makes no difference to an index into an array.
\<close>

definition isWhiteSpace :: "char \<Rightarrow> bool" where
  "isWhiteSpace c = (c \<in> {CHR 0x09, CHR 0x0A, CHR 0x0B, CHR 0x0C, CHR 0x0D, CHR 0x20, CHR 0xA0})"

definition isDigit :: "char \<Rightarrow> bool" where
  "isDigit c = (c \<in> set ''0123456789'')"

definition digitValue :: "char \<Rightarrow> nat" where
  "digitValue c = of_char c - of_char (CHR ''0'')"

definition parseInt :: "string \<Rightarrow> int option" where
  "parseInt str =
     (let S = dropWhile isWhiteSpace str;
          negative = (case S of [] \<Rightarrow> False | c # cs \<Rightarrow> c = CHR ''-'');
          S' = (case S of [] \<Rightarrow> [] | c # cs \<Rightarrow> if c = CHR ''+'' \<or> c = CHR ''-'' then cs else S);
          Z = takeWhile isDigit S'
      in if Z = [] then None
         else (let mathInt = int (foldl (\<lambda>n c. 10 * n + digitValue c) 0 Z)
               in Some (if negative then - mathInt else mathInt)))"

text \<open>
  Reading \<^verbatim>\<open>array[number]\<close>: an element for an integer from \<open>0\<close> up to the length,
  \<^verbatim>\<open>undefined\<close> for anything else (\<^verbatim>\<open>NaN\<close>, a negative number, an index past the end).
\<close>

definition element :: "'a list \<Rightarrow> int option \<Rightarrow> 'a option" where
  "element xs number =
     (case number of
        None \<Rightarrow> None
      | Some i \<Rightarrow> if 0 \<le> i \<and> i < int (length xs) then Some (xs ! nat i) else None)"

text \<open>
  \<^verbatim>\<open>handleButton\<close>, on the \<open>customId\<close> of the interaction.  Updating the Discord message is
  wrapped in a \<^verbatim>\<open>try\<close> that swallows every error and touches nothing of the daemon's state;
  the handler is followed with no other event handled while that update is awaited.
\<close>

definition handleButton :: "env \<Rightarrow> string \<Rightarrow> daemon \<Rightarrow> outcome" where
  "handleButton e customId s =
     (let parts = split CHR '':'' customId
      in if parts ! 0 \<noteq> ''req'' \<or> length parts \<noteq> 3 then Done s
         else (let requestId = parts ! 1;
                   optionIndexStr = parts ! 2;
                   optionIndex = parseInt optionIndexStr
               in case getRequest s requestId of
                    None \<Rightarrow> Done s
                  | Some request \<Rightarrow>
                      (case options request of
                         None \<Rightarrow> Done s
                       | Some opts \<Rightarrow>
                           (case element opts optionIndex of
                              None \<Rightarrow> Done s
                            | Some text \<Rightarrow>
                                if text = [] then Done s
                                else processResponse e requestId text s))))"

section \<open>IPC transport (class Server)\<close>

text \<open>\<^verbatim>\<open>Map.prototype.set\<close>, \<^verbatim>\<open>get\<close> and \<^verbatim>\<open>delete\<close> on the client table.\<close>

definition clients_set :: "socket \<Rightarrow> string option \<Rightarrow> daemon \<Rightarrow> daemon" where
  "clients_set sock r s =
     s\<lparr>clients := (if sock \<in> fst ` set (clients s)
                    then map (\<lambda>(k, v). if k = sock then (k, r) else (k, v)) (clients s)
                    else clients s @ [(sock, r)])\<rparr>"

definition clients_delete :: "socket \<Rightarrow> daemon \<Rightarrow> daemon" where
  "clients_delete sock s = s\<lparr>clients := filter (\<lambda>(k, v). k \<noteq> sock) (clients s)\<rparr>"

definition handleConnection :: "socket \<Rightarrow> daemon \<Rightarrow> daemon" where
  "handleConnection sock s = clients_set sock None s"

definition socket_closed :: "socket \<Rightarrow> daemon \<Rightarrow> daemon" where
  "socket_closed sock s = clients_delete sock s"

record ask_data =
  ask_message :: string
  ask_options :: "string list option"
  ask_sessionInfo :: SessionInfo
  ask_timeout :: "int option"
  ask_noWait :: bool

record send_data =
  send_message :: string
  send_sessionInfo :: SessionInfo

text \<open>
  \<^verbatim>\<open>handleAsk\<close> suspends once, at \<^verbatim>\<open>await this.discordHandler.sendMessage(request)\<close>.
  \<open>handleAsk_begin\<close> is the part before, \<open>handleAsk_resume\<close> the part after, which runs
  when the delivery has succeeded with the message id \<open>mid\<close>; \<open>handleAsk\<close> is the two in
  a row, with no other event in between.
\<close>

definition handleAsk_begin ::
  "Config \<Rightarrow> string \<Rightarrow> int \<Rightarrow> socket \<Rightarrow> ask_data \<Rightarrow> daemon \<Rightarrow> PendingRequest \<times> daemon" where
  "handleAsk_begin config uuid now sock data s =
     (let (request, s1) =
            createRequest config uuid now Ask (ask_message data) (ask_sessionInfo data)
              (Some \<lparr>opt_options = ask_options data,
                     opt_timeout = ask_timeout data,
                     opt_noWait = Some (ask_noWait data)\<rparr>) s
      in (request,
          if sock \<in> fst ` set (clients s1)
          then clients_set sock (Some (request_id request)) s1
          else s1))"

definition handleAsk_resume :: "socket \<Rightarrow> PendingRequest \<Rightarrow> string \<Rightarrow> daemon \<Rightarrow> daemon" where
  "handleAsk_resume sock request mid s =
     send sock (Ack (request_id request) mid) (setDiscordMessageId (request_id request) mid s)"

definition handleAsk ::
  "Config \<Rightarrow> string \<Rightarrow> int \<Rightarrow> socket \<Rightarrow> ask_data \<Rightarrow> string \<Rightarrow> daemon \<Rightarrow> daemon" where
  "handleAsk config uuid now sock data mid s =
     (let (request, s1) = handleAsk_begin config uuid now sock data s
      in handleAsk_resume sock request mid s1)"

definition handleSend ::
  "Config \<Rightarrow> string \<Rightarrow> int \<Rightarrow> socket \<Rightarrow> send_data \<Rightarrow> string \<Rightarrow> daemon \<Rightarrow> daemon" where
  "handleSend config uuid now sock data mid s =
     (let (request, s1) =
            createRequest config uuid now Send (send_message data) (send_sessionInfo data)
              (Some \<lparr>opt_options = None, opt_timeout = None, opt_noWait = Some True\<rparr>) s
      in send sock (Ack (request_id request) mid) (setDiscordMessageId (request_id request) mid s1))"

definition handleStatus :: "socket \<Rightarrow> string \<Rightarrow> daemon \<Rightarrow> daemon" where
  "handleStatus sock rid s =
     (case getRequest s rid of
        None \<Rightarrow> send sock (Error (Some rid) ''NOT_FOUND'' ''Request not found'') s
      | Some request \<Rightarrow> s)"

definition handleCancel :: "socket \<Rightarrow> string \<Rightarrow> daemon \<Rightarrow> daemon" where
  "handleCancel sock rid s = send sock (Ack rid []) (cleanup rid s)"

text \<open>
  The dispatch of \<^verbatim>\<open>Server.handleMessage\<close> on one line of input: \<open>raw\<close> is the line,
  \<open>delivery\<close> the outcome of \<^verbatim>\<open>sendMessage\<close> (the Discord message id, or the message of
  the error it rejects with).  An exception in a handler is caught and reported on the
  socket; what the handler did before it threw stays done.
\<close>

datatype ClientMessage =
    M_send send_data
  | M_ask ask_data
  | M_status string
  | M_cancel string
  | M_unknown

definition Server_handleMessage ::
  "Config \<Rightarrow> string \<Rightarrow> int \<Rightarrow> string + string \<Rightarrow> socket \<Rightarrow> ClientMessage contents
     \<Rightarrow> daemon \<Rightarrow> daemon" where
  "Server_handleMessage config uuid now delivery sock raw s =
     (case JSON_parse raw of
        Inl e \<Rightarrow> send sock (Error None ''PARSE_ERROR'' ''Invalid JSON'') s
      | Inr msg \<Rightarrow>
          (case msg of
             M_send data \<Rightarrow>
               (case delivery of
                  Inr mid \<Rightarrow> handleSend config uuid now sock data mid s
                | Inl err \<Rightarrow>
                    send sock (Error None ''INTERNAL_ERROR'' err)
                      (snd (createRequest config uuid now Send (send_message data) (send_sessionInfo data)
                              (Some \<lparr>opt_options = None, opt_timeout = None, opt_noWait = Some True\<rparr>) s)))
           | M_ask data \<Rightarrow>
               (case delivery of
                  Inr mid \<Rightarrow> handleAsk config uuid now sock data mid s
                | Inl err \<Rightarrow>
                    send sock (Error None ''INTERNAL_ERROR'' err)
                      (snd (handleAsk_begin config uuid now sock data s)))
           | M_status rid \<Rightarrow> handleStatus sock rid s
           | M_cancel rid \<Rightarrow> handleCancel sock rid s
           | M_unknown \<Rightarrow> send sock (Error None ''UNKNOWN_TYPE'' ''Unknown message type'') s))"

section \<open>Configuration (shared/config.ts)\<close>

text \<open>
  What a configuration file may hold.  \<^verbatim>\<open>a || b\<close> on strings yields \<open>b\<close> when \<open>a\<close> is
  \<^verbatim>\<open>undefined\<close> or empty.  \<open>home_dataDir\<close> is \<^verbatim>\<open>join(homedir(), ".discord-notify")\<close>.
\<close>

record fileConfig =
  fc_socketPath :: "string option"
  fc_dataDir :: "string option"
  fc_discord_userId :: "string option"
  fc_timeouts_defaultAsk :: "int option"
  fc_timeouts_maxAsk :: "int option"

definition empty_fileConfig :: fileConfig where
  "empty_fileConfig =
     \<lparr>fc_socketPath = None, fc_dataDir = None, fc_discord_userId = None,
      fc_timeouts_defaultAsk = None, fc_timeouts_maxAsk = None\<rparr>"

definition or_string :: "string option \<Rightarrow> string \<Rightarrow> string" where
  "or_string a b = (case a of None \<Rightarrow> b | Some x \<Rightarrow> if x = [] then b else x)"

fun readConfigFiles :: "fileConfig backing list \<Rightarrow> fileConfig" where
  "readConfigFiles [] = empty_fileConfig"
| "readConfigFiles (f # fs) =
     (if existsSync f then
        (case readFileSync f of
           Inl e \<Rightarrow> readConfigFiles fs
         | Inr t \<Rightarrow> (case JSON_parse t of Inl e \<Rightarrow> readConfigFiles fs | Inr d \<Rightarrow> d))
      else readConfigFiles fs)"

definition loadConfig :: "string \<Rightarrow> fileConfig backing list \<Rightarrow> string option \<Rightarrow> string + Config" where
  "loadConfig home_dataDir configFiles DISCORD_TOKEN =
     (let fc = readConfigFiles configFiles
      in case DISCORD_TOKEN of
           None \<Rightarrow> Inl ''DISCORD_TOKEN environment variable is required''
         | Some tok \<Rightarrow>
             if tok = [] then Inl ''DISCORD_TOKEN environment variable is required''
             else Inr
               \<lparr>socketPath = or_string (fc_socketPath fc) ''/tmp/discord-notify.sock'',
                dataDir = or_string (fc_dataDir fc) home_dataDir,
                discord = \<lparr>token = tok, userId = or_string (fc_discord_userId fc) []\<rparr>,
                timeouts = \<lparr>defaultAsk = or_number (fc_timeouts_defaultAsk fc) 300000,
                            maxAsk = or_number (fc_timeouts_maxAsk fc) 3600000\<rparr>\<rparr>)"

section \<open>A sample run\<close>

text \<open>
  A daemon started on an empty data directory, with one connected client whose question
  \<open>r1\<close> has been delivered as Discord message \<open>m1\<close>.
\<close>

definition sample_config :: Config where
  "sample_config =
     \<lparr>socketPath = ''/tmp/discord-notify.sock'',
      dataDir = ''/home/u/.discord-notify'',
      discord = \<lparr>token = ''secret'', userId = ''u1''\<rparr>,
      timeouts = \<lparr>defaultAsk = 300000, maxAsk = 3600000\<rparr>\<rparr>"

definition sample_info :: SessionInfo where
  "sample_info =
     \<lparr>pid = 4242, sessionId = None, sessionName = None, cwd = ''/w'', projectName = Some ''w''\<rparr>"

definition sample_ask :: ask_data where
  "sample_ask =
     \<lparr>ask_message = ''Deploy now?'',
      ask_options = Some [''Yes'', ''No''],
      ask_sessionInfo = sample_info,
      ask_timeout = Some 5000,
      ask_noWait = False\<rparr>"

definition sample_env :: env where
  "sample_env = \<lparr>isProcessAlive = (\<lambda>p. True), now1 = 2000, now2 = 2001\<rparr>"

definition reply_to :: "Config \<Rightarrow> string \<Rightarrow> string \<Rightarrow> Message" where
  "reply_to config mid text =
     \<lparr>author_bot = False,
      channel_isDMBased = True,
      author_id = userId (discord config),
      reference_messageId = Some mid,
      content = text\<rparr>"

definition sample_started :: daemon where
  "sample_started = handleConnection 0 (new_Server sample_config Missing Missing)"

definition sample_daemon :: daemon where
  "sample_daemon = handleAsk sample_config ''r1'' 1000 0 sample_ask ''m1'' sample_started"

text \<open>The same run with a question whose first option label is empty.\<close>

definition sample_blank :: daemon where
  "sample_blank =
     handleAsk sample_config ''r1'' 1000 0 (sample_ask\<lparr>ask_options := Some ['''', ''No'']\<rparr>) ''m1''
       sample_started"

text \<open>The daemon restarted on the files that the sample run has written.\<close>

definition sample_restarted :: daemon where
  "sample_restarted =
     new_Server sample_config (pendingFile sample_daemon) (sessionsFile sample_daemon)"

text \<open>The request that the sample run has stored.\<close>

definition sample_request :: PendingRequest where
  "sample_request =
     \<lparr>request_id = ''r1'', request_type = Ask, message = ''Deploy now?'',
      options = Some [''Yes'', ''No''], sessionInfo = sample_info,
      discordMessageId = Some ''m1'', createdAt = 1000, timeout = 5000, noWait = False\<rparr>"

text \<open>The sample run after a second \<open>setDiscordMessageId\<close> with the same message id.\<close>

definition sample_twice :: daemon where
  "sample_twice = setDiscordMessageId ''r1'' ''m1'' sample_daemon"





section \<open>Unfolding rules and the sample run, field by field\<close>

lemmas io_defs = existsSync_def readFileSync_def JSON_parse_def

lemmas store_defs = savePendingStore_def saveSessionStore_def loadPendingStore_def
  loadSessionStore_def empty_PendingStore_def empty_SessionStore_def

lemmas timer_defs = startTimeout_def clearTimeout_def timer_fires_def setTimeout_delay_def

lemmas manager_defs = createRequest_def setDiscordMessageId_def getRequest_def
  getRequestByMessageId_def getTerminal_def setResponse_def handleTimeout_def
  updateTerminalActive_def cleanup_def or_number_def or_bool_def

lemmas server_defs = send_def notifyClient_def emit_def clients_set_def clients_delete_def
  handleConnection_def socket_closed_def handleAsk_begin_def handleAsk_resume_def handleAsk_def
  handleSend_def handleStatus_def handleCancel_def new_Server_def

lemmas router_defs = processResponse_def handleMessage_def handleButton_def element_def

lemmas parseInt_defs = parseInt_def isWhiteSpace_def isDigit_def digitValue_def

lemmas sample_defs = sample_config_def sample_info_def sample_ask_def sample_env_def reply_to_def
  sample_started_def sample_daemon_def

lemma sample_daemon_requests:
  "requests (pendingStore sample_daemon) =
     [''r1'' \<mapsto> \<lparr>request_id = ''r1'', request_type = Ask, message = ''Deploy now?'',
        options = Some [''Yes'', ''No''], sessionInfo = sample_info,
        discordMessageId = Some ''m1'', createdAt = 1000, timeout = 5000, noWait = False\<rparr>]"
  by (simp add: sample_defs server_defs manager_defs store_defs io_defs timer_defs Let_def)

lemma sample_daemon_responses: "responses (pendingStore sample_daemon) = Map.empty"
  by (simp add: sample_defs server_defs manager_defs store_defs io_defs timer_defs Let_def)

lemma sample_daemon_index: "messageToRequest (sessionStore sample_daemon) = [''m1'' \<mapsto> ''r1'']"
  by (simp add: sample_defs server_defs manager_defs store_defs io_defs timer_defs Let_def)

lemma sample_daemon_terminal:
  "requestToTerminal (sessionStore sample_daemon) =
     [''r1'' \<mapsto> \<lparr>term_pid = 4242, term_kittyWindowId = None, term_sessionId = None,
        term_cwd = ''/w'', active = True\<rparr>]"
  by (simp add: sample_defs server_defs manager_defs store_defs io_defs timer_defs Let_def)

lemma sample_daemon_timers: "timers sample_daemon = [''r1'' \<mapsto> 0]"
  by (simp add: sample_defs server_defs manager_defs store_defs io_defs timer_defs Let_def)

lemma sample_daemon_scheduled: "scheduled sample_daemon = [(0, ''r1'', 5000)]"
  by (simp add: sample_defs server_defs manager_defs store_defs io_defs timer_defs Let_def)

lemma sample_daemon_clients: "clients sample_daemon = [(0, Some ''r1'')]"
  by (simp add: sample_defs server_defs manager_defs store_defs io_defs timer_defs Let_def)

lemma sample_daemon_wire: "wire sample_daemon = [(0, Ack ''r1'' ''m1'')]"
  by (simp add: sample_defs server_defs manager_defs store_defs io_defs timer_defs Let_def)

lemma sample_daemon_nextTimer: "nextTimer sample_daemon = 1"
  by (simp add: sample_defs server_defs manager_defs store_defs io_defs timer_defs Let_def)

lemma sample_blank_request:
  "getRequest sample_blank ''r1'' =
     Some \<lparr>request_id = ''r1'', request_type = Ask, message = ''Deploy now?'',
        options = Some ['''', ''No''], sessionInfo = sample_info,
        discordMessageId = Some ''m1'', createdAt = 1000, timeout = 5000, noWait = False\<rparr>"
  by (simp add: sample_blank_def sample_defs server_defs manager_defs store_defs io_defs
      timer_defs Let_def)

lemma sample_blank_responses: "responses (pendingStore sample_blank) = Map.empty"
  by (simp add: sample_blank_def sample_defs server_defs manager_defs store_defs io_defs
      timer_defs Let_def)

section \<open>Loading the stores\<close>

text \<open>
  Claim C8.  Loading tolerates a missing or corrupt backing file: a file that is absent,
  cannot be read, or holds text that does not parse yields the empty maps, for the pending
  store and for the session store alike, and each store is loaded independently of the
  other.  A file that parses is returned as it is.  No exception leaves the loader, so the
  constructor always yields a running daemon.
\<close>

theorem load_tolerates_missing_or_corrupt:
  "loadPendingStore Missing = \<lparr>requests = Map.empty, responses = Map.empty\<rparr>
   \<and> loadPendingStore Unreadable = \<lparr>requests = Map.empty, responses = Map.empty\<rparr>
   \<and> loadPendingStore (File Garbage) = \<lparr>requests = Map.empty, responses = Map.empty\<rparr>
   \<and> loadPendingStore (File (Doc d)) = d
   \<and> loadSessionStore Missing = \<lparr>messageToRequest = Map.empty, requestToTerminal = Map.empty\<rparr>
   \<and> loadSessionStore Unreadable = \<lparr>messageToRequest = Map.empty, requestToTerminal = Map.empty\<rparr>
   \<and> loadSessionStore (File Garbage) = \<lparr>messageToRequest = Map.empty, requestToTerminal = Map.empty\<rparr>
   \<and> loadSessionStore (File (Doc d')) = d'
   \<and> pendingStore (new_Server config pf sf) = loadPendingStore pf
   \<and> sessionStore (new_Server config pf sf) = loadSessionStore sf"
  by (simp add: store_defs io_defs new_Server_def)

theorem load_tolerates_missing_or_corrupt_witness:
  "requests (pendingStore (new_Server sample_config (File Garbage) Unreadable)) = Map.empty
   \<and> responses (pendingStore (new_Server sample_config (File Garbage) Unreadable)) = Map.empty
   \<and> messageToRequest (sessionStore (new_Server sample_config (File Garbage) Unreadable)) = Map.empty
   \<and> requestToTerminal (sessionStore (new_Server sample_config (File Garbage) Unreadable)) = Map.empty
   \<and> loadPendingStore (File (Doc (pendingStore sample_daemon))) = pendingStore sample_daemon
   \<and> loadSessionStore (File (Doc (sessionStore sample_daemon))) = sessionStore sample_daemon"
  using load_tolerates_missing_or_corrupt [of "pendingStore sample_daemon" "sessionStore sample_daemon"
      sample_config "File Garbage" Unreadable]
  by simp

section \<open>Creating a request\<close>

text \<open>
  Claim C9.  \<open>createRequest\<close> treats a supplied timeout of 0 as it treats no timeout: the
  request that it returns and stores has the configured default as its timeout.  The
  request stored under the new id is always the request returned, and the store is written
  to its file.  It never clamps: a supplied positive timeout \<open>t\<close> is the timeout of the
  request returned and of the request stored, whatever \<open>maxAsk\<close> is; and changing
  \<open>maxAsk\<close> in the configuration changes nothing in what any operation that takes the
  configuration does (\<open>createRequest\<close>, \<open>handleAsk\<close>, \<open>handleSend\<close>, the two
  \<open>handleMessage\<close>, the constructor).
\<close>

theorem createRequest_timeout_unclamped:
  "createRequest config uuid now ty msg info (Some (os\<lparr>opt_timeout := Some 0\<rparr>)) s
     = createRequest config uuid now ty msg info (Some (os\<lparr>opt_timeout := None\<rparr>)) s
   \<and> timeout (fst (createRequest config uuid now ty msg info (Some (os\<lparr>opt_timeout := None\<rparr>)) s))
       = defaultAsk (timeouts config)
   \<and> timeout (fst (createRequest config uuid now ty msg info None s)) = defaultAsk (timeouts config)
   \<and> (0 < t \<longrightarrow>
        timeout (fst (createRequest config uuid now ty msg info (Some (os\<lparr>opt_timeout := Some t\<rparr>)) s)) = t
        \<and> map_option timeout
            (requests (pendingStore (snd (createRequest config uuid now ty msg info
                 (Some (os\<lparr>opt_timeout := Some t\<rparr>)) s))) uuid) = Some t)
   \<and> createRequest (config\<lparr>timeouts := (timeouts config)\<lparr>maxAsk := m\<rparr>\<rparr>) uuid now ty msg info opts s
       = createRequest config uuid now ty msg info opts s
   \<and> handleAsk (config\<lparr>timeouts := (timeouts config)\<lparr>maxAsk := m\<rparr>\<rparr>) uuid now sock adata mid s
       = handleAsk config uuid now sock adata mid s
   \<and> handleSend (config\<lparr>timeouts := (timeouts config)\<lparr>maxAsk := m\<rparr>\<rparr>) uuid now sock sdata mid s
       = handleSend config uuid now sock sdata mid s
   \<and> handleMessage (config\<lparr>timeouts := (timeouts config)\<lparr>maxAsk := m\<rparr>\<rparr>) e dm s
       = handleMessage config e dm s
   \<and> Server_handleMessage (config\<lparr>timeouts := (timeouts config)\<lparr>maxAsk := m\<rparr>\<rparr>) uuid now
         delivery sock raw s
       = Server_handleMessage config uuid now delivery sock raw s
   \<and> new_Server (config\<lparr>timeouts := (timeouts config)\<lparr>maxAsk := m\<rparr>\<rparr>) pf sf
       = new_Server config pf sf
   \<and> requests (pendingStore (snd (createRequest config uuid now ty msg info opts s))) uuid
       = Some (fst (createRequest config uuid now ty msg info opts s))
   \<and> pendingFile (snd (createRequest config uuid now ty msg info opts s))
       = File (Doc (pendingStore (snd (createRequest config uuid now ty msg info opts s))))
   \<and> map_option timeout
        (requests (pendingStore (snd (createRequest config uuid now ty msg info
             (Some (os\<lparr>opt_timeout := Some 0\<rparr>)) s))) uuid) = Some (defaultAsk (timeouts config))
   \<and> map_option timeout
        (requests (pendingStore (snd (createRequest config uuid now ty msg info
             (Some (os\<lparr>opt_timeout := None\<rparr>)) s))) uuid) = Some (defaultAsk (timeouts config))
   \<and> map_option timeout
        (requests (pendingStore (snd (createRequest config uuid now ty msg info None s))) uuid)
       = Some (defaultAsk (timeouts config))"
  by (simp add: createRequest_def or_number_def savePendingStore_def saveSessionStore_def Let_def
      handleAsk_def handleAsk_begin_def handleSend_def handleMessage_def new_Server_def
      Server_handleMessage_def split: sum.splits ClientMessage.splits)

theorem createRequest_timeout_unclamped_witness:
  "maxAsk (timeouts sample_config) < 7200000
   \<and> timeout (fst (createRequest sample_config ''r2'' 1000 Ask ''Proceed?'' sample_info
        (Some \<lparr>opt_options = None, opt_timeout = Some 7200000, opt_noWait = Some False\<rparr>) sample_daemon))
       = 7200000
   \<and> map_option timeout
        (requests (pendingStore (snd (createRequest sample_config ''r2'' 1000 Ask ''Proceed?'' sample_info
           (Some \<lparr>opt_options = None, opt_timeout = Some 7200000, opt_noWait = Some False\<rparr>) sample_daemon))) ''r2'')
       = Some 7200000
   \<and> map_option timeout
        (requests (pendingStore (snd (createRequest sample_config ''r2'' 1000 Ask ''Proceed?'' sample_info
           (Some \<lparr>opt_options = None, opt_timeout = Some 0, opt_noWait = Some False\<rparr>) sample_daemon))) ''r2'')
       = Some 300000"
  using createRequest_timeout_unclamped [of sample_config "''r2''" 1000 Ask "''Proceed?''" sample_info
      "\<lparr>opt_options = None, opt_timeout = Some 7200000, opt_noWait = Some False\<rparr>" sample_daemon 7200000]
  by (simp add: sample_config_def)

section \<open>Replies that match no request\<close>

text \<open>
  Claim C6.  A message that is not a reply, or replies to a message id that resolves to no
  request, and likewise a message from a bot, from outside a direct-message channel or
  from anyone but the configured user, leaves the daemon exactly as it was: the four maps,
  the backing files, the timers, the sockets.  The handler runs to its end, and the lookup
  itself only reads.
\<close>

theorem handleMessage_drops_unresolved_or_unauthorized:
  assumes "author_bot msg \<or> \<not> channel_isDMBased msg \<or> author_id msg \<noteq> userId (discord config)
           \<or> (\<forall>mid. reference_messageId msg = Some mid \<longrightarrow> getRequestByMessageId s mid = None)"
  shows "handleMessage config e msg s = Done s"
  using assms by (auto simp: handleMessage_def split: option.splits)

theorem handleMessage_drops_unresolved_or_unauthorized_witness:
  "getRequestByMessageId sample_daemon ''m2'' = None
   \<and> handleMessage sample_config sample_env (reply_to sample_config ''m2'' ''hello'') sample_daemon
       = Done sample_daemon
   \<and> author_id ((reply_to sample_config ''m1'' ''hello'')\<lparr>author_id := ''u2''\<rparr>)
       \<noteq> userId (discord sample_config)
   \<and> handleMessage sample_config sample_env
         ((reply_to sample_config ''m1'' ''hello'')\<lparr>author_id := ''u2''\<rparr>) sample_daemon
       = Done sample_daemon"
proof -
  have unknown: "getRequestByMessageId sample_daemon ''m2'' = None"
    by (simp add: getRequestByMessageId_def sample_daemon_index)
  have stranger:
    "author_id ((reply_to sample_config ''m1'' ''hello'')\<lparr>author_id := ''u2''\<rparr>)
       \<noteq> userId (discord sample_config)"
    by (simp add: reply_to_def sample_config_def)
  from unknown
  have "\<forall>mid. reference_messageId (reply_to sample_config ''m2'' ''hello'') = Some mid
          \<longrightarrow> getRequestByMessageId sample_daemon mid = None"
    by (simp add: reply_to_def)
  then have a:
    "handleMessage sample_config sample_env (reply_to sample_config ''m2'' ''hello'') sample_daemon
       = Done sample_daemon"
    using handleMessage_drops_unresolved_or_unauthorized by blast
  have b:
    "handleMessage sample_config sample_env
         ((reply_to sample_config ''m1'' ''hello'')\<lparr>author_id := ''u2''\<rparr>) sample_daemon
       = Done sample_daemon"
    using handleMessage_drops_unresolved_or_unauthorized stranger by blast
  from unknown stranger a b show ?thesis by blast
qed

section \<open>Button clicks\<close>

text \<open>
  Claim C10.  A click whose token names a stored request with options and an index inside
  the option list is ignored when the label at that index is the empty string, exactly as
  a click with an index past the end is: the handler ends with the daemon as it was, so no
  answer is recorded.
\<close>

theorem handleButton_empty_label_ignored:
  assumes "split CHR '':'' customId = [''req'', rid, idx]"
    and "getRequest s rid = Some request"
    and "options request = Some opts"
    and "parseInt idx = Some i" and "0 \<le> i" and "i < int (length opts)"
    and "opts ! nat i = []"
    and "split CHR '':'' customId' = [''req'', rid, idx']"
    and "parseInt idx' = Some j" and "int (length opts) \<le> j"
  shows "handleButton e customId s = Done s \<and> handleButton e customId' s = Done s"
  using assms by (simp add: handleButton_def element_def Let_def)

theorem handleButton_empty_label_ignored_witness:
  "handleButton sample_env ''req:r1:0'' sample_blank = Done sample_blank
   \<and> handleButton sample_env ''req:r1:2'' sample_blank = Done sample_blank
   \<and> responses (pendingStore (state_of (handleButton sample_env ''req:r1:0'' sample_blank))) ''r1'' = None"
proof -
  have "parseInt ''0'' = Some 0" "parseInt ''2'' = Some 2"
    by (simp_all add: parseInt_defs)
  then show ?thesis
    using handleButton_empty_label_ignored [of "''req:r1:0''" "''r1''" "''0''" sample_blank _
        "['''', ''No'']" 0 "''req:r1:2''" "''2''" 2 sample_env]
    by (simp add: sample_blank_request sample_blank_responses)
qed

section \<open>What each operation changes\<close>

lemma split_nonempty: "split sep str \<noteq> []"
  by (cases str) (auto split: list.splits)

lemma clearTimeout_frame:
  "pendingStore (clearTimeout rid s) = pendingStore s"
  "sessionStore (clearTimeout rid s) = sessionStore s"
  "clients (clearTimeout rid s) = clients s"
  "wire (clearTimeout rid s) = wire s"
  "emitted (clearTimeout rid s) = emitted s"
  "pendingFile (clearTimeout rid s) = pendingFile s"
  "sessionsFile (clearTimeout rid s) = sessionsFile s"
  "nextTimer (clearTimeout rid s) = nextTimer s"
  by (simp_all add: clearTimeout_def split: option.splits)

lemma clearTimeout_timers: "timers (clearTimeout rid s) = (timers s)(rid := None)"
  by (auto simp: clearTimeout_def split: option.splits)

lemma clearTimeout_scheduled:
  "scheduled (clearTimeout rid s) =
     (case timers s rid of None \<Rightarrow> scheduled s
      | Some timer \<Rightarrow> filter (\<lambda>(h, r, ms). h \<noteq> timer) (scheduled s))"
  by (simp add: clearTimeout_def split: option.splits)

lemma notifyClient_frame:
  "pendingStore (notifyClient rid msg s) = pendingStore s"
  "sessionStore (notifyClient rid msg s) = sessionStore s"
  "clients (notifyClient rid msg s) = clients s"
  "timers (notifyClient rid msg s) = timers s"
  "scheduled (notifyClient rid msg s) = scheduled s"
  "emitted (notifyClient rid msg s) = emitted s"
  "pendingFile (notifyClient rid msg s) = pendingFile s"
  "sessionsFile (notifyClient rid msg s) = sessionsFile s"
  "nextTimer (notifyClient rid msg s) = nextTimer s"
  by (simp_all add: notifyClient_def send_def split: option.splits prod.splits)

lemma notifyClient_wire:
  "wire (notifyClient rid msg s) =
     wire s @ (case find (\<lambda>(sock, r). r = Some rid) (clients s) of
                 None \<Rightarrow> [] | Some (sock, r) \<Rightarrow> [(sock, msg)])"
  by (simp add: notifyClient_def send_def split: option.splits prod.splits)

lemma emit_frame:
  "pendingStore (emit ev s) = pendingStore s"
  "sessionStore (emit ev s) = sessionStore s"
  "clients (emit ev s) = clients s"
  "timers (emit ev s) = timers s"
  "scheduled (emit ev s) = scheduled s"
  "pendingFile (emit ev s) = pendingFile s"
  "sessionsFile (emit ev s) = sessionsFile s"
  "nextTimer (emit ev s) = nextTimer s"
  by (simp_all add: emit_def notifyClient_frame Let_def split: event.splits)

lemma emit_emitted: "emitted (emit ev s) = emitted s @ [ev]"
  by (simp add: emit_def notifyClient_frame Let_def split: event.splits)

lemma emit_wire:
  "wire (emit (Ev_response rid text at) s) =
     wire s @ (case find (\<lambda>(sock, r). r = Some rid) (clients s) of
                 None \<Rightarrow> [] | Some (sock, r) \<Rightarrow> [(sock, Response rid text at)])"
  "wire (emit (Ev_timeout rid) s) =
     wire s @ (case find (\<lambda>(sock, r). r = Some rid) (clients s) of
                 None \<Rightarrow> [] | Some (sock, r) \<Rightarrow> [(sock, Timeout rid)])"
  by (simp_all add: emit_def notifyClient_wire Let_def)

lemma setResponse_pendingStore:
  "pendingStore (setResponse rid text t1 t2 s) =
     (pendingStore s)\<lparr>responses := (responses (pendingStore s))(rid \<mapsto>
        \<lparr>requestId = rid, status = S_answered, response = Some text,
         answeredAt = Some t1, error = None\<rparr>)\<rparr>"
  by (simp add: setResponse_def emit_frame savePendingStore_def clearTimeout_frame Let_def)

lemma setResponse_frame:
  "sessionStore (setResponse rid text t1 t2 s) = sessionStore s"
  "clients (setResponse rid text t1 t2 s) = clients s"
  "sessionsFile (setResponse rid text t1 t2 s) = sessionsFile s"
  "nextTimer (setResponse rid text t1 t2 s) = nextTimer s"
  by (simp_all add: setResponse_def emit_frame savePendingStore_def clearTimeout_frame Let_def)

lemma setResponse_timers:
  "timers (setResponse rid text t1 t2 s) = (timers s)(rid := None)"
  by (simp add: setResponse_def emit_frame savePendingStore_def clearTimeout_timers Let_def)

lemma setResponse_scheduled:
  "scheduled (setResponse rid text t1 t2 s) =
     (case timers s rid of None \<Rightarrow> scheduled s
      | Some timer \<Rightarrow> filter (\<lambda>(h, r, ms). h \<noteq> timer) (scheduled s))"
  by (simp add: setResponse_def emit_frame savePendingStore_def clearTimeout_scheduled Let_def)

lemma setResponse_pendingFile:
  "pendingFile (setResponse rid text t1 t2 s) = File (Doc (pendingStore (setResponse rid text t1 t2 s)))"
  by (simp add: setResponse_def emit_frame savePendingStore_def clearTimeout_frame Let_def)

lemma setResponse_wire:
  "wire (setResponse rid text t1 t2 s) =
     wire s @ (case find (\<lambda>(sock, r). r = Some rid) (clients s) of
                 None \<Rightarrow> [] | Some (sock, r) \<Rightarrow> [(sock, Response rid text t2)])"
  by (simp add: setResponse_def emit_wire savePendingStore_def clearTimeout_frame Let_def)

lemma setResponse_emitted:
  "emitted (setResponse rid text t1 t2 s) = emitted s @ [Ev_response rid text t2]"
  by (simp add: setResponse_def emit_emitted savePendingStore_def clearTimeout_frame Let_def)

lemma handleTimeout_pendingStore:
  "pendingStore (handleTimeout rid s) =
     (pendingStore s)\<lparr>responses := (responses (pendingStore s))(rid \<mapsto>
        \<lparr>requestId = rid, status = S_timeout, response = None,
         answeredAt = None, error = None\<rparr>)\<rparr>"
  by (simp add: handleTimeout_def emit_frame savePendingStore_def Let_def)

lemma handleTimeout_frame:
  "sessionStore (handleTimeout rid s) = sessionStore s"
  "clients (handleTimeout rid s) = clients s"
  "scheduled (handleTimeout rid s) = scheduled s"
  "sessionsFile (handleTimeout rid s) = sessionsFile s"
  "nextTimer (handleTimeout rid s) = nextTimer s"
  by (simp_all add: handleTimeout_def emit_frame savePendingStore_def Let_def)

lemma handleTimeout_timers: "timers (handleTimeout rid s) = (timers s)(rid := None)"
  by (simp add: handleTimeout_def emit_frame savePendingStore_def Let_def)

lemma handleTimeout_wire:
  "wire (handleTimeout rid s) =
     wire s @ (case find (\<lambda>(sock, r). r = Some rid) (clients s) of
                 None \<Rightarrow> [] | Some (sock, r) \<Rightarrow> [(sock, Timeout rid)])"
  by (simp add: handleTimeout_def emit_wire savePendingStore_def Let_def)

lemma handleTimeout_emitted: "emitted (handleTimeout rid s) = emitted s @ [Ev_timeout rid]"
  by (simp add: handleTimeout_def emit_emitted savePendingStore_def Let_def)

lemma updateTerminalActive_frame:
  "pendingStore (updateTerminalActive rid act s) = pendingStore s"
  "messageToRequest (sessionStore (updateTerminalActive rid act s)) = messageToRequest (sessionStore s)"
  "clients (updateTerminalActive rid act s) = clients s"
  "timers (updateTerminalActive rid act s) = timers s"
  "scheduled (updateTerminalActive rid act s) = scheduled s"
  "wire (updateTerminalActive rid act s) = wire s"
  "emitted (updateTerminalActive rid act s) = emitted s"
  "pendingFile (updateTerminalActive rid act s) = pendingFile s"
  "nextTimer (updateTerminalActive rid act s) = nextTimer s"
  by (simp_all add: updateTerminalActive_def saveSessionStore_def split: option.splits)

text \<open>
  When \<open>processResponse\<close> records at once, and when it waits.
\<close>

lemma processResponse_at_once:
  assumes "\<forall>t. getTerminal s rid = Some t \<longrightarrow>
             isProcessAlive e (term_pid t) \<or> term_sessionId t = None \<or> term_sessionId t = Some []"
  shows "is_Done (processResponse e rid text s)"
    and "pendingStore (state_of (processResponse e rid text s)) =
           (pendingStore s)\<lparr>responses := (responses (pendingStore s))(rid \<mapsto>
              \<lparr>requestId = rid, status = S_answered, response = Some text,
               answeredAt = Some (now1 e), error = None\<rparr>)\<rparr>"
  using assms
  by (auto simp: processResponse_def setResponse_pendingStore updateTerminalActive_frame Let_def
      split: option.splits)




lemma sample_daemon_pendingFile: "pendingFile sample_daemon = File (Doc (pendingStore sample_daemon))"
  by (simp add: sample_defs server_defs manager_defs store_defs io_defs timer_defs Let_def)

lemma sample_daemon_sessionsFile: "sessionsFile sample_daemon = File (Doc (sessionStore sample_daemon))"
  by (simp add: sample_defs server_defs manager_defs store_defs io_defs timer_defs Let_def)







section \<open>Terminal status\<close>

text \<open>
  Claim C1, amended.  The last writer wins: \<open>setResponse\<close> always leaves the response of
  the request Answered with the given text, and \<open>handleTimeout\<close> always leaves it
  TimedOut, whatever was recorded before; neither touches the response of another request.
  \<open>setResponse\<close> first clears the timer stored for the request, so that timer cannot
  fire afterwards, and both remove the request's entry from the timer table.
\<close>

theorem terminal_status_last_writer_wins:
  "responses (pendingStore (setResponse rid text t1 t2 s)) rid =
     Some \<lparr>requestId = rid, status = S_answered, response = Some text,
           answeredAt = Some t1, error = None\<rparr>
   \<and> responses (pendingStore (handleTimeout rid s)) rid =
     Some \<lparr>requestId = rid, status = S_timeout, response = None,
           answeredAt = None, error = None\<rparr>
   \<and> timers (setResponse rid text t1 t2 s) rid = None
   \<and> (\<forall>timer. timers s rid = Some timer
         \<longrightarrow> timer \<notin> fst ` set (scheduled (setResponse rid text t1 t2 s)))
   \<and> timers (handleTimeout rid s) rid = None
   \<and> (rid' \<noteq> rid \<longrightarrow>
         responses (pendingStore (setResponse rid text t1 t2 s)) rid' = responses (pendingStore s) rid'
         \<and> responses (pendingStore (handleTimeout rid s)) rid' = responses (pendingStore s) rid')"
  by (auto simp: setResponse_pendingStore handleTimeout_pendingStore setResponse_timers
      handleTimeout_timers setResponse_scheduled)

theorem terminal_status_last_writer_wins_witness:
  "responses (pendingStore (handleTimeout ''r1'' (setResponse ''r1'' ''Yes'' 2000 2001 sample_daemon))) ''r1'' =
     Some \<lparr>requestId = ''r1'', status = S_timeout, response = None, answeredAt = None, error = None\<rparr>
   \<and> timers sample_daemon ''r1'' = Some 0
   \<and> 0 \<notin> fst ` set (scheduled (setResponse ''r1'' ''Yes'' 2000 2001 sample_daemon))
   \<and> responses (pendingStore (setResponse ''r1'' ''Yes'' 2000 2001 sample_daemon)) ''r2'' = None"
  using terminal_status_last_writer_wins [of "''r1''" "''Yes''" 2000 2001 sample_daemon "''r2''"]
    terminal_status_last_writer_wins [of "''r1''" "''Yes''" 2000 2001 "setResponse ''r1'' ''Yes'' 2000 2001 sample_daemon" "''r2''"]
  by (simp add: sample_daemon_timers sample_daemon_responses)

lemma sample_fired_responses:
  "responses (pendingStore (timer_fires 0 sample_daemon)) ''r1'' =
     Some \<lparr>requestId = ''r1'', status = S_timeout, response = None, answeredAt = None, error = None\<rparr>"
  by (simp add: timer_fires_def sample_daemon_scheduled handleTimeout_pendingStore)

text \<open>
  Claim C1 as stated fails: in the sample run the timer fires and the status is TimedOut;
  an answer that arrives afterwards, directly through \<open>setResponse\<close> or as a reply through
  \<open>handleMessage\<close>, which ends in that \<open>setResponse\<close>, changes the status to Answered.
\<close>

theorem late_answer_overwrites_timeout:
  "map_option status (responses (pendingStore (timer_fires 0 sample_daemon)) ''r1'') = Some S_timeout
   \<and> map_option status (responses (pendingStore
        (setResponse ''r1'' ''late'' 2000 2001 (timer_fires 0 sample_daemon))) ''r1'') = Some S_answered
   \<and> handleMessage sample_config sample_env (reply_to sample_config ''m1'' ''late'')
        (timer_fires 0 sample_daemon)
       = Done (setResponse ''r1'' ''late'' 2000 2001 (timer_fires 0 sample_daemon))"
  by (simp add: sample_fired_responses setResponse_pendingStore handleMessage_def reply_to_def
      getRequestByMessageId_def timer_fires_def sample_daemon_scheduled handleTimeout_frame
      handleTimeout_pendingStore sample_daemon_index sample_daemon_requests
      processResponse_def getTerminal_def sample_daemon_terminal sample_env_def sample_config_def)

section \<open>Restart\<close>

lemma new_Server_reply:
  assumes "requests d rid = Some request" "request_id request = rid" "rid \<noteq> []"
    "messageToRequest d' mid = Some rid" "mid \<noteq> []"
  shows "handleMessage config e (reply_to config mid text) (new_Server config (File (Doc d)) (File (Doc d')))
     = processResponse e rid text (new_Server config (File (Doc d)) (File (Doc d')))"
  using assms
  by (simp add: handleMessage_def reply_to_def getRequestByMessageId_def new_Server_def
      store_defs io_defs)

lemma new_Server_getTerminal:
  "getTerminal (new_Server config pf (File (Doc d'))) rid = requestToTerminal d' rid"
  by (simp add: getTerminal_def new_Server_def store_defs io_defs)

text \<open>
  Claim C4, amended.  The constructor restores both stores as they were persisted and
  arms no timer: the timer table is empty and nothing is scheduled, so a pending Ask loaded
  from the files keeps its request, has no response and has no timer.  The request stays
  answerable: a later reply to its Discord message, handled while the process bound to the
  request is alive or when the binding has no session id, is recorded as Answered.
\<close>

theorem restart_loads_stores_without_timers:
  "timers (new_Server config pf sf) = Map.empty
   \<and> scheduled (new_Server config pf sf) = []
   \<and> pendingStore (new_Server config (File (Doc d)) sf) = d
   \<and> sessionStore (new_Server config pf (File (Doc d'))) = d'
   \<and> (requests d rid = Some request \<and> request_id request = rid \<and> rid \<noteq> []
        \<and> messageToRequest d' mid = Some rid \<and> mid \<noteq> []
        \<and> (\<forall>t. requestToTerminal d' rid = Some t \<longrightarrow>
              isProcessAlive e (term_pid t) \<or> term_sessionId t = None \<or> term_sessionId t = Some [])
       \<longrightarrow> is_Done (handleMessage config e (reply_to config mid text)
               (new_Server config (File (Doc d)) (File (Doc d'))))
         \<and> responses (pendingStore (state_of (handleMessage config e (reply_to config mid text)
               (new_Server config (File (Doc d)) (File (Doc d')))))) rid =
             Some \<lparr>requestId = rid, status = S_answered, response = Some text,
                   answeredAt = Some (now1 e), error = None\<rparr>)"
proof -
  have loaded:
    "timers (new_Server config pf sf) = Map.empty
     \<and> scheduled (new_Server config pf sf) = []
     \<and> pendingStore (new_Server config (File (Doc d)) sf) = d
     \<and> sessionStore (new_Server config pf (File (Doc d'))) = d'"
    by (simp add: new_Server_def store_defs io_defs)
  have answerable:
    "requests d rid = Some request \<and> request_id request = rid \<and> rid \<noteq> []
        \<and> messageToRequest d' mid = Some rid \<and> mid \<noteq> []
        \<and> (\<forall>t. requestToTerminal d' rid = Some t \<longrightarrow>
              isProcessAlive e (term_pid t) \<or> term_sessionId t = None \<or> term_sessionId t = Some [])
       \<longrightarrow> is_Done (handleMessage config e (reply_to config mid text)
               (new_Server config (File (Doc d)) (File (Doc d'))))
         \<and> responses (pendingStore (state_of (handleMessage config e (reply_to config mid text)
               (new_Server config (File (Doc d)) (File (Doc d')))))) rid =
             Some \<lparr>requestId = rid, status = S_answered, response = Some text,
                   answeredAt = Some (now1 e), error = None\<rparr>"
    by (auto simp: new_Server_reply processResponse_at_once new_Server_getTerminal)
  from loaded answerable show ?thesis by simp
qed

theorem restart_loads_stores_without_timers_witness:
  "timers sample_restarted = Map.empty
   \<and> scheduled sample_restarted = []
   \<and> pendingStore sample_restarted = pendingStore sample_daemon
   \<and> sessionStore sample_restarted = sessionStore sample_daemon
   \<and> is_Done (handleMessage sample_config sample_env
          (reply_to sample_config ''m1'' ''Yes'') sample_restarted)
   \<and> responses (pendingStore (state_of (handleMessage sample_config sample_env
          (reply_to sample_config ''m1'' ''Yes'') sample_restarted))) ''r1'' =
        Some \<lparr>requestId = ''r1'', status = S_answered, response = Some ''Yes'',
              answeredAt = Some (now1 sample_env), error = None\<rparr>"
  using restart_loads_stores_without_timers [of sample_config "pendingFile sample_daemon"
      "sessionsFile sample_daemon" "pendingStore sample_daemon" "sessionStore sample_daemon"
      "''r1''" sample_request "''m1''" sample_env "''Yes''"]
  by (simp add: sample_restarted_def sample_daemon_pendingFile sample_daemon_sessionsFile
      sample_daemon_requests sample_daemon_index sample_request_def sample_daemon_terminal)

text \<open>
  Claim C4 as stated fails: the daemon restarted on the files of the sample run holds the
  Ask \<open>r1\<close>, which is waiting and has no response, and has neither a timer for it nor a
  TimedOut response.
\<close>

theorem restart_leaves_pending_ask_without_timer:
  "map_option request_type (requests (pendingStore sample_restarted) ''r1'') = Some Ask
   \<and> map_option noWait (requests (pendingStore sample_restarted) ''r1'') = Some False
   \<and> responses (pendingStore sample_restarted) ''r1'' = None
   \<and> timers sample_restarted ''r1'' = None
   \<and> scheduled sample_restarted = []"
  by (simp add: sample_restarted_def sample_daemon_pendingFile sample_daemon_sessionsFile
      new_Server_def store_defs io_defs sample_daemon_requests sample_daemon_responses)

section \<open>Cancel\<close>

lemma cleanup_pendingStore:
  "requests (pendingStore (cleanup rid s)) = (requests (pendingStore s))(rid := None)"
  "responses (pendingStore (cleanup rid s)) = (responses (pendingStore s))(rid := None)"
  by (simp_all add: cleanup_def store_defs clearTimeout_frame Let_def split: option.splits)

lemma cleanup_sessionStore:
  "requestToTerminal (sessionStore (cleanup rid s)) = (requestToTerminal (sessionStore s))(rid := None)"
  "messageToRequest (sessionStore (cleanup rid s)) =
     (case requests (pendingStore s) rid of
        None \<Rightarrow> messageToRequest (sessionStore s)
      | Some request \<Rightarrow>
          (case discordMessageId request of
             None \<Rightarrow> messageToRequest (sessionStore s)
           | Some mid \<Rightarrow> if mid \<noteq> [] then (messageToRequest (sessionStore s))(mid := None)
                         else messageToRequest (sessionStore s)))"
  by (simp_all add: cleanup_def store_defs clearTimeout_frame Let_def split: option.splits)

lemma cleanup_timers:
  "timers (cleanup rid s) = (timers s)(rid := None)"
  "scheduled (cleanup rid s) =
     (case timers s rid of None \<Rightarrow> scheduled s
      | Some timer \<Rightarrow> filter (\<lambda>(h, r, ms). h \<noteq> timer) (scheduled s))"
  by (simp_all add: cleanup_def store_defs clearTimeout_frame clearTimeout_timers
      clearTimeout_scheduled Let_def split: option.splits)

lemma cleanup_frame:
  "wire (cleanup rid s) = wire s"
  "clients (cleanup rid s) = clients s"
  "emitted (cleanup rid s) = emitted s"
  "pendingFile (cleanup rid s) = File (Doc (pendingStore (cleanup rid s)))"
  "sessionsFile (cleanup rid s) = File (Doc (sessionStore (cleanup rid s)))"
  by (simp_all add: cleanup_def store_defs clearTimeout_frame Let_def split: option.splits)

lemma cleanup_lookup:
  "messageToRequest (sessionStore s) mid = Some rid \<Longrightarrow> getRequestByMessageId (cleanup rid s) mid = None"
  by (auto simp: getRequestByMessageId_def cleanup_pendingStore cleanup_sessionStore
      split: option.splits)

lemma cleanup_former_ref:
  assumes "requests (pendingStore s) rid = Some request" "discordMessageId request = Some mid"
    "reference_messageId msg = Some mid"
  shows "handleMessage config e msg (cleanup rid s) = Done (cleanup rid s)"
  using assms
  by (simp add: handleMessage_def getRequestByMessageId_def cleanup_sessionStore)

text \<open>
  Claim C7.  \<open>cleanup\<close> of a request id clears the timer stored for the request and
  removes it from the timer table, and deletes the id from the request map, the response
  map and the terminal-binding map; when the request has an external ref (a non-empty
  \<open>discordMessageId\<close>) the index entry of that ref is deleted as well.  Afterwards a reply
  that references the request's former external ref, and any lookup through an index
  entry that pointed to the request, resolves to no request and leaves the daemon as it
  is.  Both files are written.  \<open>handleCancel\<close> answers with an Ack whatever the id; for an
  id that is not stored, the request map and the index are left as they were.
\<close>

theorem cleanup_deletes_all_entries:
  "requests (pendingStore (cleanup rid s)) rid = None
   \<and> responses (pendingStore (cleanup rid s)) rid = None
   \<and> requestToTerminal (sessionStore (cleanup rid s)) rid = None
   \<and> timers (cleanup rid s) rid = None
   \<and> (\<forall>timer. timers s rid = Some timer \<longrightarrow> timer \<notin> fst ` set (scheduled (cleanup rid s)))
   \<and> (\<forall>request mid. requests (pendingStore s) rid = Some request
          \<and> discordMessageId request = Some mid \<and> mid \<noteq> []
        \<longrightarrow> messageToRequest (sessionStore (cleanup rid s)) mid = None)
   \<and> (\<forall>request mid msg. requests (pendingStore s) rid = Some request
          \<and> discordMessageId request = Some mid \<and> reference_messageId msg = Some mid
        \<longrightarrow> handleMessage config e msg (cleanup rid s) = Done (cleanup rid s))
   \<and> (\<forall>mid. messageToRequest (sessionStore s) mid = Some rid
        \<longrightarrow> getRequestByMessageId (cleanup rid s) mid = None)
   \<and> pendingFile (cleanup rid s) = File (Doc (pendingStore (cleanup rid s)))
   \<and> sessionsFile (cleanup rid s) = File (Doc (sessionStore (cleanup rid s)))
   \<and> wire (handleCancel sock rid s) = wire s @ [(sock, Ack rid [])]
   \<and> (requests (pendingStore s) rid = None
        \<longrightarrow> requests (pendingStore (cleanup rid s)) = requests (pendingStore s)
          \<and> messageToRequest (sessionStore (cleanup rid s)) = messageToRequest (sessionStore s))"
proof -
  have "\<forall>timer. timers s rid = Some timer \<longrightarrow> timer \<notin> fst ` set (scheduled (cleanup rid s))"
    by (auto simp: cleanup_timers)
  moreover have "\<forall>request mid. requests (pendingStore s) rid = Some request
          \<and> discordMessageId request = Some mid \<and> mid \<noteq> []
        \<longrightarrow> messageToRequest (sessionStore (cleanup rid s)) mid = None"
    by (simp add: cleanup_sessionStore)
  moreover have "\<forall>request mid msg. requests (pendingStore s) rid = Some request
          \<and> discordMessageId request = Some mid \<and> reference_messageId msg = Some mid
        \<longrightarrow> handleMessage config e msg (cleanup rid s) = Done (cleanup rid s)"
    using cleanup_former_ref by blast
  moreover have "\<forall>mid. messageToRequest (sessionStore s) mid = Some rid
        \<longrightarrow> getRequestByMessageId (cleanup rid s) mid = None"
    using cleanup_lookup by blast
  moreover have "wire (handleCancel sock rid s) = wire s @ [(sock, Ack rid [])]"
    by (simp add: handleCancel_def send_def cleanup_frame)
  moreover have "requests (pendingStore s) rid = None
        \<longrightarrow> requests (pendingStore (cleanup rid s)) = requests (pendingStore s)
          \<and> messageToRequest (sessionStore (cleanup rid s)) = messageToRequest (sessionStore s)"
    by (auto simp: cleanup_pendingStore cleanup_sessionStore)
  ultimately show ?thesis
    by (simp add: cleanup_pendingStore cleanup_sessionStore cleanup_timers cleanup_frame)
qed

theorem cleanup_deletes_all_entries_witness:
  "requests (pendingStore (cleanup ''r1'' sample_daemon)) ''r1'' = None
   \<and> responses (pendingStore (cleanup ''r1'' sample_daemon)) ''r1'' = None
   \<and> requestToTerminal (sessionStore (cleanup ''r1'' sample_daemon)) ''r1'' = None
   \<and> timers (cleanup ''r1'' sample_daemon) ''r1'' = None
   \<and> 0 \<notin> fst ` set (scheduled (cleanup ''r1'' sample_daemon))
   \<and> messageToRequest (sessionStore (cleanup ''r1'' sample_daemon)) ''m1'' = None
   \<and> handleMessage sample_config sample_env (reply_to sample_config ''m1'' ''Yes'')
        (cleanup ''r1'' sample_daemon) = Done (cleanup ''r1'' sample_daemon)
   \<and> wire (handleCancel 0 ''r9'' sample_daemon) = [(0, Ack ''r1'' ''m1''), (0, Ack ''r9'' [])]
   \<and> requests (pendingStore (cleanup ''r9'' sample_daemon)) = requests (pendingStore sample_daemon)"
proof -
  note c1 = cleanup_deletes_all_entries [of "''r1''" sample_daemon sample_config sample_env 0]
  note c9 = cleanup_deletes_all_entries [of "''r9''" sample_daemon sample_config sample_env 0]
  have r: "requests (pendingStore sample_daemon) ''r1'' = Some sample_request"
    "discordMessageId sample_request = Some ''m1''"
    "reference_messageId (reply_to sample_config ''m1'' ''Yes'') = Some ''m1''"
    "requests (pendingStore sample_daemon) ''r9'' = None"
    "timers sample_daemon ''r1'' = Some 0"
    by (simp_all add: sample_daemon_requests sample_request_def reply_to_def sample_daemon_timers)
  from c1 r have "0 \<notin> fst ` set (scheduled (cleanup ''r1'' sample_daemon))" by blast
  moreover from c1 r have "messageToRequest (sessionStore (cleanup ''r1'' sample_daemon)) ''m1'' = None"
    by simp
  moreover from c1 r have "handleMessage sample_config sample_env (reply_to sample_config ''m1'' ''Yes'')
        (cleanup ''r1'' sample_daemon) = Done (cleanup ''r1'' sample_daemon)" by blast
  moreover from c9 have "wire (handleCancel 0 ''r9'' sample_daemon) = [(0, Ack ''r1'' ''m1''), (0, Ack ''r9'' [])]"
    by (simp add: sample_daemon_wire)
  moreover from c9 r have "requests (pendingStore (cleanup ''r9'' sample_daemon)) = requests (pendingStore sample_daemon)"
    by blast
  ultimately show ?thesis using c1 by blast
qed

section \<open>Timers\<close>

lemma sample_twice_scheduled: "scheduled sample_twice = [(0, ''r1'', 5000), (1, ''r1'', 5000)]"
  by (simp add: sample_twice_def setDiscordMessageId_def sample_daemon_requests
      sample_daemon_scheduled sample_daemon_nextTimer store_defs startTimeout_def setTimeout_delay_def Let_def)

lemma sample_twice_timers: "timers sample_twice ''r1'' = Some 1"
  by (simp add: sample_twice_def setDiscordMessageId_def sample_daemon_requests
      sample_daemon_scheduled sample_daemon_nextTimer store_defs startTimeout_def setTimeout_delay_def Let_def)

lemma sample_twice_clients: "clients sample_twice = [(0, Some ''r1'')]"
  by (simp add: sample_twice_def setDiscordMessageId_def sample_daemon_requests
      sample_daemon_clients store_defs startTimeout_def setTimeout_delay_def Let_def)

lemma sample_twice_wire: "wire sample_twice = [(0, Ack ''r1'' ''m1'')]"
  by (simp add: sample_twice_def setDiscordMessageId_def sample_daemon_requests
      sample_daemon_wire store_defs startTimeout_def setTimeout_delay_def Let_def)

text \<open>
  Claim C3, at the input where the code departs from it.  In the sample run one timer is
  scheduled for \<open>r1\<close>.  A second \<open>setDiscordMessageId\<close> with the same message id schedules
  a second timer without clearing the first, and the timer table now names only the
  second.  An answer then clears the second timer only; the first stays scheduled, and when
  it fires the recorded answer is replaced by a timeout and the client, which has received
  the Response, is sent a Timeout.
\<close>

theorem setDiscordMessageId_twice_two_timers:
  "scheduled sample_daemon = [(0, ''r1'', 5000)]
   \<and> scheduled sample_twice = [(0, ''r1'', 5000), (1, ''r1'', 5000)]
   \<and> timers sample_twice ''r1'' = Some 1
   \<and> scheduled (setResponse ''r1'' ''Yes'' 2000 2001 sample_twice) = [(0, ''r1'', 5000)]
   \<and> map_option status (responses (pendingStore (setResponse ''r1'' ''Yes'' 2000 2001 sample_twice)) ''r1'')
       = Some S_answered
   \<and> map_option status (responses (pendingStore
         (timer_fires 0 (setResponse ''r1'' ''Yes'' 2000 2001 sample_twice))) ''r1'')
       = Some S_timeout
   \<and> wire (timer_fires 0 (setResponse ''r1'' ''Yes'' 2000 2001 sample_twice))
       = [(0, Ack ''r1'' ''m1''), (0, Response ''r1'' ''Yes'' 2001), (0, Timeout ''r1'')]"
  by (simp add: sample_daemon_scheduled sample_twice_scheduled sample_twice_timers
      setResponse_scheduled setResponse_pendingStore timer_fires_def handleTimeout_pendingStore
      handleTimeout_wire setResponse_wire setResponse_frame sample_twice_clients sample_twice_wire)

section \<open>What a connection receives\<close>



















text \<open>
  Why the delivery must not be interleaved: \<open>handleAsk\<close> has stored the request and bound
  the client before it awaits the delivery, and a click is resolved through the request
  map alone.  A click handled between the two halves is answered before the Ack is sent.
\<close>

lemma click_during_delivery_precedes_ack:
  "wire (handleAsk_resume 0 (fst (handleAsk_begin sample_config ''r1'' 1000 0 sample_ask sample_started)) ''m1''
      (state_of (handleButton sample_env ''req:r1:1''
         (snd (handleAsk_begin sample_config ''r1'' 1000 0 sample_ask sample_started)))))
     = [(0, Response ''r1'' ''No'' 2001), (0, Ack ''r1'' ''m1'')]"
  by (simp add: handleAsk_resume_def handleAsk_begin_def createRequest_def store_defs
      sample_started_def handleConnection_def clients_set_def new_Server_def io_defs
      handleButton_def getRequest_def element_def parseInt_defs processResponse_def getTerminal_def
      setResponse_wire setResponse_pendingStore setResponse_frame
      setDiscordMessageId_def startTimeout_def send_def
      sample_ask_def sample_config_def sample_env_def sample_info_def or_number_def or_bool_def
      Let_def)


end
